theory Spec2Isabelle
  imports Main
begin

section \<open>The nim bridge of doctl: data model\<close>

text \<open>
  The file \<^verbatim>\<open>commands/nimbella.go\<close> turns the serverless components of an app spec
  into one call of the external \<^verbatim>\<open>nim\<close> tool and patches the static sites of the same
  app spec with the namespace's URL. The embedding follows the later of the two versions
  of the file (the one with \<^verbatim>\<open>getServerlessURL\<close>, \<^verbatim>\<open>addServerlessURLToStaticSites\<close>
  and the variadic \<^verbatim>\<open>runNim\<close>); the functions both versions share are identical.

  A Go \<^verbatim>\<open>error\<close> is either built in this file by \<^verbatim>\<open>errors.New\<close> with a message, or
  handed back by the operating system (\<^verbatim>\<open>os.UserHomeDir\<close>, \<^verbatim>\<open>exec.Cmd.CombinedOutput\<close>).
\<close>

datatype error = errors_New string | os_error string

text \<open>
  The structs of package \<^verbatim>\<open>godo\<close> are declared outside this repository. Each record has
  the fields the source reads or writes. A pointer field that may be \<^verbatim>\<open>nil\<close> is an
  \<open>option\<close>. The elements of the slices handed in (\<^verbatim>\<open>[]*godo.AppServerlessSpec\<close>,
  \<^verbatim>\<open>[]*godo.AppStaticSiteSpec\<close>, \<^verbatim>\<open>[]*godo.AppVariableDefinition\<close>) are taken to be
  distinct objects, none of them \<^verbatim>\<open>nil\<close>, as the components of a decoded app spec are.
\<close>

record GitHubSourceSpec =
  Repo :: string
  Branch :: string
  DeployOnPush :: bool

record LocalSourceSpec =
  Path :: string

record AppServerlessSpec =
  Local :: "LocalSourceSpec option"
  GitHub :: "GitHubSourceSpec option"
  SourceDir :: string

text \<open>
  Modelled from the spec: the enumerations \<^verbatim>\<open>godo.AppVariableScope\<close> and
  \<^verbatim>\<open>godo.AppVariableType\<close> are not part of the sources at hand; the spec gives a scope
  (build-time or runtime) and a type tag, of which the source uses
  \<^verbatim>\<open>AppVariableScope_BuildTime\<close> and \<^verbatim>\<open>AppVariableType_General\<close>.
\<close>

datatype AppVariableScope = AppVariableScope_RunTime | AppVariableScope_BuildTime

datatype AppVariableType = AppVariableType_General | AppVariableType_Secret

record AppVariableDefinition =
  Key :: string
  Value :: string
  Scope :: AppVariableScope
  Type :: AppVariableType

text \<open>
  A static site has many fields; the source touches \<^verbatim>\<open>Envs\<close> only. The functions on
  static sites below are stated for every extension of the record, so the remaining
  fields are the extension part and can be seen to stay as they are.
\<close>

record AppStaticSiteSpec =
  Envs :: "AppVariableDefinition list"

section \<open>Project references\<close>

text \<open>
  The three builder functions return \<^verbatim>\<open>(string, error)\<close> where the string is \<^verbatim>\<open>""\<close>
  whenever the error is not \<^verbatim>\<open>nil\<close>; the result is a sum, \<open>Inl\<close> carrying the error.
\<close>

definition githubProject :: "GitHubSourceSpec \<Rightarrow> string \<Rightarrow> error + string" where
  "githubProject spec sourceDir =
     (if DeployOnPush spec then
        Inl (errors_New ''the `deploy on push` feature is not currently supported for serverless'')
      else if Repo spec = '''' then
        Inl (errors_New ''The `repo` field is required'')
      else
        (let project = ''github:'' @ Repo spec;
             project = (if sourceDir \<noteq> '''' then project @ ''/'' @ sourceDir else project);
             project = (if Branch spec \<noteq> '''' then project @ ''#'' @ Branch spec else project)
         in Inr project))"

definition localProject :: "LocalSourceSpec \<Rightarrow> string \<Rightarrow> error + string" where
  "localProject spec sourceDir =
     (if Path spec \<noteq> '''' then
        (if sourceDir \<noteq> '''' then Inr (Path spec @ ''/'' @ sourceDir) else Inr (Path spec))
      else if sourceDir \<noteq> '''' then Inr sourceDir
      else Inl (errors_New
        ''If `local` is used, either the path or the sourceDir or both must be specified''))"

definition convertToNimProject :: "AppServerlessSpec \<Rightarrow> error + string" where
  "convertToNimProject spec =
     (case Local spec of
        None \<Rightarrow>
          (case GitHub spec of
             None \<Rightarrow> Inl (errors_New
               ''one of `Local` or `GitHub` must appear in a `serverless` spec'')
           | Some gh \<Rightarrow> githubProject gh (SourceDir spec))
      | Some loc \<Rightarrow>
          (case GitHub spec of
             Some gh \<Rightarrow> Inl (errors_New
               ''you cannot specify both `Local` and `GitHub` in a `serverless` spec'')
           | None \<Rightarrow> localProject loc (SourceDir spec)))"

section \<open>Running the tool\<close>

text \<open>
  What the functions ask of the world around them: the home directory of the user
  (\<^verbatim>\<open>os.UserHomeDir\<close>), the joining of path elements (\<^verbatim>\<open>filepath.Join\<close>) and the
  running of a command to its end (\<^verbatim>\<open>exec.Command(name, args...).CombinedOutput()\<close>),
  which gives the combined output together with an error or \<^verbatim>\<open>nil\<close>.
  The processes launched so far are kept as a list of (executable, argument vector),
  the newest last; every function that may launch one takes and returns that list.
\<close>

record system =
  os_UserHomeDir :: "error + string"
  filepath_Join :: "string list \<Rightarrow> string"
  CombinedOutput :: "string \<Rightarrow> string list \<Rightarrow> string \<times> error option"

type_synonym launches = "(string \<times> string list) list"

definition getNimPath :: "system \<Rightarrow> error + string" where
  "getNimPath sys =
     (case os_UserHomeDir sys of
        Inl err \<Rightarrow> Inl err
      | Inr homeDir \<Rightarrow>
          Inr (filepath_Join sys [homeDir, ''.nimbella'', ''cli'', ''bin'', ''nim'']))"

definition runNim ::
  "system \<Rightarrow> launches \<Rightarrow> string list \<Rightarrow> (string \<times> error option) \<times> launches" where
  "runNim sys ls args =
     (case getNimPath sys of
        Inl err \<Rightarrow> (('''', Some err), ls)
      | Inr nim \<Rightarrow> (CombinedOutput sys nim args, ls @ [(nim, args)]))"

section \<open>Deployment\<close>

text \<open>
  The loop of \<^verbatim>\<open>deployServerless\<close>, with the slice \<^verbatim>\<open>nimProjects\<close> as accumulator: it
  leaves at the first component that does not convert.
\<close>

fun nimProjects_loop :: "AppServerlessSpec list \<Rightarrow> string list \<Rightarrow> error + string list" where
  "nimProjects_loop [] nimProjects = Inr nimProjects"
| "nimProjects_loop (project # projects) nimProjects =
     (case convertToNimProject project of
        Inl err \<Rightarrow> Inl err
      | Inr nimProject \<Rightarrow> nimProjects_loop projects (nimProjects @ [nimProject]))"

definition deployServerless ::
  "system \<Rightarrow> launches \<Rightarrow> AppServerlessSpec list \<Rightarrow> (string \<times> error option) \<times> launches" where
  "deployServerless sys ls projects =
     (case nimProjects_loop projects [] of
        Inl err \<Rightarrow> (('''', Some err), ls)
      | Inr nimProjects \<Rightarrow>
          runNim sys ls ([''project'', ''deploy'', ''--exclude'', ''web''] @ nimProjects))"

section \<open>The serverless URL in static sites\<close>

definition getServerlessURL :: "system \<Rightarrow> launches \<Rightarrow> (string \<times> error option) \<times> launches" where
  "getServerlessURL sys ls = runNim sys ls [''auth'', ''current'', ''--web'']"

text \<open>The search loop of \<^verbatim>\<open>addURLToSite\<close>: is there an entry with the key?\<close>

fun key_in_use :: "AppVariableDefinition list \<Rightarrow> bool" where
  "key_in_use [] = False"
| "key_in_use (env # envs) = (if Key env = ''SERVERLESS_URL'' then True else key_in_use envs)"

definition addURLToSite ::
  "string \<Rightarrow> AppVariableDefinition list \<Rightarrow> AppVariableDefinition list \<times> error option" where
  "addURLToSite url envs =
     (if key_in_use envs then
        (envs, Some (errors_New
          ''Unable to add serverless URL to static site because the variable has a conflicting use''))
      else
        (let newEnv = \<lparr>Key = ''SERVERLESS_URL'', Value = url,
                       Scope = AppVariableScope_BuildTime, Type = AppVariableType_General\<rparr>
         in (envs @ [newEnv], None)))"

text \<open>
  The loop of \<^verbatim>\<open>addServerlessURLToStaticSites\<close>. The sites are changed in place; the
  function returns the sites as they are when the loop is left. The assignment to
  \<^verbatim>\<open>site.Envs\<close> comes before the test of the error, as in the source.
\<close>

fun sites_loop ::
  "string \<Rightarrow> 'a AppStaticSiteSpec_scheme list \<Rightarrow> 'a AppStaticSiteSpec_scheme list \<times> error option"
where
  "sites_loop url [] = ([], None)"
| "sites_loop url (site # sites) =
     (case addURLToSite url (Envs site) of
        (envs, Some err) \<Rightarrow> (site\<lparr>Envs := envs\<rparr> # sites, Some err)
      | (envs, None) \<Rightarrow>
          (case sites_loop url sites of
             (sites', r) \<Rightarrow> (site\<lparr>Envs := envs\<rparr> # sites', r)))"

definition addServerlessURLToStaticSites ::
  "system \<Rightarrow> launches \<Rightarrow> 'a AppStaticSiteSpec_scheme list \<Rightarrow>
     ('a AppStaticSiteSpec_scheme list \<times> error option) \<times> launches" where
  "addServerlessURLToStaticSites sys ls sites =
     (case getServerlessURL sys ls of
        ((url, Some err), ls') \<Rightarrow> ((sites, Some err), ls')
      | ((url, None), ls') \<Rightarrow> (sites_loop url sites, ls'))"

section \<open>Trimming, as the specification words it\<close>

text \<open>
  The specification speaks of the tool's output ``trimmed of any framing the tool might
  add'', such as surrounding whitespace or a trailing newline. The source has no such
  step; \<open>trim_space\<close> is written from the specification's words (blanks, tabs, line
  feeds, vertical tabs, form feeds and carriage returns removed at both ends), to be
  compared with what the source stores.
\<close>

definition is_space :: "char \<Rightarrow> bool" where
  "is_space c \<longleftrightarrow> c \<in> set [CHR '' '', CHR 0x09, CHR 0x0A, CHR 0x0B, CHR 0x0C, CHR 0x0D]"

definition trim_space :: "string \<Rightarrow> string" where
  "trim_space s = rev (dropWhile is_space (rev (dropWhile is_space s)))"

section \<open>Concrete systems and components\<close>

text \<open>
  Systems to run the functions on: \<open>slash_join\<close> joins path elements with a slash, as
  \<^verbatim>\<open>filepath.Join\<close> does on clean elements under Unix; \<open>home_system out\<close> has a home
  directory and a tool that prints \<open>out\<close> and exits with success; \<open>homeless_system\<close>
  has no home directory, with the error \<^verbatim>\<open>os.UserHomeDir\<close> gives when \<^verbatim>\<open>$HOME\<close> is unset.
\<close>

fun slash_join :: "string list \<Rightarrow> string" where
  "slash_join [] = ''''"
| "slash_join [x] = x"
| "slash_join (x # y # ys) = x @ ''/'' @ slash_join (y # ys)"

definition home_system :: "string \<Rightarrow> system" where
  "home_system out =
     \<lparr>os_UserHomeDir = Inr ''/home/u'', filepath_Join = slash_join,
      CombinedOutput = (\<lambda>nim args. (out, None))\<rparr>"

definition homeless_system :: system where
  "homeless_system =
     \<lparr>os_UserHomeDir = Inl (os_error ''$HOME is not defined''), filepath_Join = slash_join,
      CombinedOutput = (\<lambda>nim args. ('''', None))\<rparr>"

definition local_component :: AppServerlessSpec where
  "local_component = \<lparr>Local = Some \<lparr>Path = ''/a/b''\<rparr>, GitHub = None, SourceDir = ''sub''\<rparr>"

definition github_component :: AppServerlessSpec where
  "github_component =
     \<lparr>Local = None,
      GitHub = Some \<lparr>Repo = ''org/repo'', Branch = ''main'', DeployOnPush = False\<rparr>,
      SourceDir = ''src''\<rparr>"

definition sourceless_component :: AppServerlessSpec where
  "sourceless_component = \<lparr>Local = None, GitHub = None, SourceDir = ''src''\<rparr>"

definition plain_site :: AppStaticSiteSpec where
  "plain_site =
     \<lparr>Envs = [\<lparr>Key = ''API_KEY'', Value = ''k1'',
               Scope = AppVariableScope_RunTime, Type = AppVariableType_Secret\<rparr>]\<rparr>"

definition taken_site :: AppStaticSiteSpec where
  "taken_site =
     \<lparr>Envs = [\<lparr>Key = ''SERVERLESS_URL'', Value = ''https://old.example'',
               Scope = AppVariableScope_RunTime, Type = AppVariableType_General\<rparr>]\<rparr>"

definition framed_url :: string where
  "framed_url = ''https://ns.example/api'' @ [CHR 0x0A]"

section \<open>The project reference of one component\<close>

text \<open>
  C1. A component with \<^verbatim>\<open>GitHub\<close> set, \<^verbatim>\<open>Local\<close> unset, \<^verbatim>\<open>DeployOnPush\<close> false and a
  non-empty \<^verbatim>\<open>Repo\<close> converts without error to \<^verbatim>\<open>github:\<close> followed by the repository,
  then a slash and the source directory exactly when the source directory is not empty,
  then a hash sign and the branch exactly when the branch is not empty: the directory
  comes before the branch.
\<close>

theorem github_reference:
  assumes "GitHub spec = Some gh" and "Local spec = None"
    and "\<not> DeployOnPush gh" and "Repo gh \<noteq> ''''"
  shows "convertToNimProject spec =
           Inr (''github:'' @ Repo gh
                @ (if SourceDir spec \<noteq> '''' then ''/'' @ SourceDir spec else '''')
                @ (if Branch gh \<noteq> '''' then ''#'' @ Branch gh else ''''))"
  using assms by (simp add: convertToNimProject_def githubProject_def)

theorem github_reference_witness:
  "convertToNimProject github_component = Inr ''github:org/repo/src#main''"
proof -
  let ?gh = "\<lparr>Repo = ''org/repo'', Branch = ''main'', DeployOnPush = False\<rparr>"
  have 1: "GitHub github_component = Some ?gh" by (simp add: github_component_def)
  have 2: "Local github_component = None" by (simp add: github_component_def)
  have 3: "\<not> DeployOnPush ?gh" by simp
  have 4: "Repo ?gh \<noteq> ''''" by simp
  from github_reference [OF 1 2 3 4] show ?thesis by (simp add: github_component_def)
qed

text \<open>
  C2. A component with \<^verbatim>\<open>Local\<close> set and \<^verbatim>\<open>GitHub\<close> unset converts to the path, a slash
  and the source directory when both are non-empty, to the path alone when only the path
  is non-empty, to the source directory alone when the path is empty and the source
  directory is not, and fails with the message that one of the two is required when both
  are empty.
\<close>

theorem local_reference:
  assumes "Local spec = Some loc" and "GitHub spec = None"
  shows "convertToNimProject spec =
           (if Path loc \<noteq> '''' \<and> SourceDir spec \<noteq> '''' then
              Inr (Path loc @ ''/'' @ SourceDir spec)
            else if Path loc \<noteq> '''' then Inr (Path loc)
            else if SourceDir spec \<noteq> '''' then Inr (SourceDir spec)
            else Inl (errors_New
              ''If `local` is used, either the path or the sourceDir or both must be specified''))"
  using assms by (simp add: convertToNimProject_def localProject_def)

theorem local_reference_witness:
  "convertToNimProject \<lparr>Local = Some \<lparr>Path = ''/a/b''\<rparr>, GitHub = None, SourceDir = ''sub''\<rparr>
     = Inr ''/a/b/sub''
   \<and> convertToNimProject \<lparr>Local = Some \<lparr>Path = ''/a/b''\<rparr>, GitHub = None, SourceDir = ''''\<rparr>
     = Inr ''/a/b''
   \<and> convertToNimProject \<lparr>Local = Some \<lparr>Path = ''''\<rparr>, GitHub = None, SourceDir = ''sub''\<rparr>
     = Inr ''sub''
   \<and> convertToNimProject \<lparr>Local = Some \<lparr>Path = ''''\<rparr>, GitHub = None, SourceDir = ''''\<rparr>
     = Inl (errors_New
         ''If `local` is used, either the path or the sourceDir or both must be specified'')"
proof -
  have l: "Local \<lparr>Local = Some \<lparr>Path = p\<rparr>, GitHub = None, SourceDir = d\<rparr> = Some \<lparr>Path = p\<rparr>"
    for p d by simp
  have g: "GitHub \<lparr>Local = Some \<lparr>Path = p\<rparr>, GitHub = None, SourceDir = d\<rparr> = None"
    for p d by simp
  from local_reference [OF l g, of "''/a/b''" "''sub''"]
    local_reference [OF l g, of "''/a/b''" "''''"]
    local_reference [OF l g, of "''''" "''sub''"]
    local_reference [OF l g, of "''''" "''''"]
  show ?thesis by simp
qed

text \<open>
  C3. A component with neither \<^verbatim>\<open>Local\<close> nor \<^verbatim>\<open>GitHub\<close> fails with the message that one
  of them must appear; a component with both fails with the message that both cannot be
  specified; with exactly one of them the result is that of the builder for that source;
  and a reference is returned only when exactly one of them is set.
\<close>

theorem source_selection:
  "(Local spec = None \<and> GitHub spec = None \<longrightarrow>
      convertToNimProject spec =
        Inl (errors_New ''one of `Local` or `GitHub` must appear in a `serverless` spec''))
   \<and> (Local spec \<noteq> None \<and> GitHub spec \<noteq> None \<longrightarrow>
      convertToNimProject spec =
        Inl (errors_New ''you cannot specify both `Local` and `GitHub` in a `serverless` spec''))
   \<and> (\<forall>gh. Local spec = None \<and> GitHub spec = Some gh \<longrightarrow>
      convertToNimProject spec = githubProject gh (SourceDir spec))
   \<and> (\<forall>loc. Local spec = Some loc \<and> GitHub spec = None \<longrightarrow>
      convertToNimProject spec = localProject loc (SourceDir spec))
   \<and> (\<forall>ref. convertToNimProject spec = Inr ref \<longrightarrow>
      (Local spec = None) \<noteq> (GitHub spec = None))"
  by (auto simp: convertToNimProject_def split: option.splits)

theorem source_selection_witness:
  "convertToNimProject sourceless_component =
     Inl (errors_New ''one of `Local` or `GitHub` must appear in a `serverless` spec'')
   \<and> convertToNimProject
        \<lparr>Local = Some \<lparr>Path = ''/a/b''\<rparr>,
         GitHub = Some \<lparr>Repo = ''org/repo'', Branch = '''', DeployOnPush = False\<rparr>,
         SourceDir = ''''\<rparr> =
     Inl (errors_New ''you cannot specify both `Local` and `GitHub` in a `serverless` spec'')
   \<and> convertToNimProject github_component =
       githubProject \<lparr>Repo = ''org/repo'', Branch = ''main'', DeployOnPush = False\<rparr> ''src''
   \<and> convertToNimProject local_component = localProject \<lparr>Path = ''/a/b''\<rparr> ''sub''"
  using source_selection [of sourceless_component]
    source_selection
      [of "\<lparr>Local = Some \<lparr>Path = ''/a/b''\<rparr>,
            GitHub = Some \<lparr>Repo = ''org/repo'', Branch = '''', DeployOnPush = False\<rparr>,
            SourceDir = ''''\<rparr>"]
    source_selection [of github_component]
    source_selection [of local_component]
  by (simp add: sourceless_component_def github_component_def local_component_def)

text \<open>
  C4. A component with \<^verbatim>\<open>GitHub\<close> set, \<^verbatim>\<open>Local\<close> unset and \<^verbatim>\<open>DeployOnPush\<close> true fails
  with the message that deploy on push is not supported, whatever the other fields hold;
  the error is never the one about the missing repository, also when \<^verbatim>\<open>Repo\<close> is empty.
\<close>

theorem deploy_on_push_first:
  assumes "GitHub spec = Some gh" and "Local spec = None" and "DeployOnPush gh"
  shows "convertToNimProject spec =
           Inl (errors_New ''the `deploy on push` feature is not currently supported for serverless'')
         \<and> convertToNimProject spec \<noteq> Inl (errors_New ''The `repo` field is required'')"
  using assms by (simp add: convertToNimProject_def githubProject_def)

theorem deploy_on_push_first_witness:
  "convertToNimProject
     \<lparr>Local = None, GitHub = Some \<lparr>Repo = '''', Branch = '''', DeployOnPush = True\<rparr>,
      SourceDir = ''''\<rparr> =
     Inl (errors_New ''the `deploy on push` feature is not currently supported for serverless'')"
proof -
  let ?gh = "\<lparr>Repo = '''', Branch = '''', DeployOnPush = True\<rparr>"
  let ?spec = "\<lparr>Local = None, GitHub = Some ?gh, SourceDir = ''''\<rparr>"
  have 1: "GitHub ?spec = Some ?gh" by simp
  have 2: "Local ?spec = None" by simp
  have 3: "DeployOnPush ?gh" by simp
  from deploy_on_push_first [OF 1 2 3] show ?thesis by simp
qed

section \<open>Deploying the serverless components\<close>

lemma nimProjects_loop_fails:
  assumes "i < length projects"
    and "convertToNimProject (projects ! i) = Inl err"
    and "\<forall>j<i. \<exists>ref. convertToNimProject (projects ! j) = Inr ref"
  shows "nimProjects_loop projects acc = Inl err"
  using assms
proof (induction projects arbitrary: i acc)
  case Nil
  then show ?case by simp
next
  case (Cons p ps)
  show ?case
  proof (cases i)
    case 0
    with Cons.prems show ?thesis by simp
  next
    case (Suc k)
    from Cons.prems(3) Suc obtain ref where r: "convertToNimProject p = Inr ref"
      by fastforce
    have "k < length ps" using Cons.prems(1) Suc by simp
    moreover have "convertToNimProject (ps ! k) = Inl err" using Cons.prems(2) Suc by simp
    moreover have "\<forall>j<k. \<exists>ref. convertToNimProject (ps ! j) = Inr ref"
    proof (intro allI impI)
      fix j assume "j < k"
      then have "Suc j < i" using Suc by simp
      with Cons.prems(3) show "\<exists>ref. convertToNimProject (ps ! j) = Inr ref" by fastforce
    qed
    ultimately have "nimProjects_loop ps (acc @ [ref]) = Inl err" by (rule Cons.IH)
    with r show ?thesis by simp
  qed
qed

lemma nimProjects_loop_succeeds:
  "map convertToNimProject projects = map Inr refs \<Longrightarrow>
     nimProjects_loop projects acc = Inr (acc @ refs)"
proof (induction projects arbitrary: refs acc)
  case Nil
  then show ?case by simp
next
  case (Cons p ps)
  then obtain r rs where "refs = r # rs" by (cases refs) auto
  with Cons show ?case by simp
qed

lemma convert_local_component: "convertToNimProject local_component = Inr ''/a/b/sub''"
  by (simp add: local_component_def convertToNimProject_def localProject_def)

lemma convert_github_component:
  "convertToNimProject github_component = Inr ''github:org/repo/src#main''"
  by (simp add: github_component_def convertToNimProject_def githubProject_def)

lemma convert_sourceless_component:
  "convertToNimProject sourceless_component =
     Inl (errors_New ''one of `Local` or `GitHub` must appear in a `serverless` spec'')"
  by (simp add: sourceless_component_def convertToNimProject_def)

lemma nim_of_home_system: "getNimPath (home_system out) = Inr ''/home/u/.nimbella/cli/bin/nim''"
  by (simp add: getNimPath_def home_system_def)

lemma nim_of_homeless_system:
  "getNimPath homeless_system = Inl (os_error ''$HOME is not defined'')"
  by (simp add: getNimPath_def homeless_system_def)

text \<open>
  C5. When some component of the list does not convert, the first such component in the
  order of the list decides: \<^verbatim>\<open>deployServerless\<close> returns its error together with the
  empty string, and the list of launched processes is as it was before the call, so the
  tool has not been run.
\<close>

theorem deploy_fails_fast:
  assumes "i < length projects"
    and "convertToNimProject (projects ! i) = Inl err"
    and "\<forall>j<i. \<exists>ref. convertToNimProject (projects ! j) = Inr ref"
  shows "deployServerless sys ls projects = (('''', Some err), ls)"
  using nimProjects_loop_fails [OF assms, of "[]"] by (simp add: deployServerless_def)

theorem deploy_fails_fast_witness:
  "deployServerless (home_system ''deployed'') []
     [local_component, sourceless_component, github_component] =
   (('''', Some (errors_New ''one of `Local` or `GitHub` must appear in a `serverless` spec'')),
    [])"
proof -
  let ?ps = "[local_component, sourceless_component, github_component]"
  have 1: "Suc 0 < length ?ps" by simp
  have 2: "convertToNimProject (?ps ! Suc 0) =
             Inl (errors_New ''one of `Local` or `GitHub` must appear in a `serverless` spec'')"
    by (simp add: convert_sourceless_component)
  have 3: "\<forall>j<Suc 0. \<exists>ref. convertToNimProject (?ps ! j) = Inr ref"
    by (simp add: convert_local_component)
  from deploy_fails_fast [OF 1 2 3] show ?thesis .
qed

text \<open>
  C6, as amended. When every component of the list converts and the path of the tool can
  be determined, \<^verbatim>\<open>deployServerless\<close> launches exactly one process: the tool, with the
  arguments \<^verbatim>\<open>project deploy --exclude web\<close> followed by the references of the
  components in the order of the list; it returns what that run returns. When the home
  directory cannot be determined, nothing is launched and the error of the path
  resolver is returned with the empty string.
\<close>

theorem deploy_single_invocation:
  assumes "map convertToNimProject projects = map Inr refs"
  shows "(\<forall>nim. getNimPath sys = Inr nim \<longrightarrow>
            deployServerless sys ls projects =
              (CombinedOutput sys nim ([''project'', ''deploy'', ''--exclude'', ''web''] @ refs),
               ls @ [(nim, [''project'', ''deploy'', ''--exclude'', ''web''] @ refs)]))
         \<and> (\<forall>err. getNimPath sys = Inl err \<longrightarrow>
            deployServerless sys ls projects = (('''', Some err), ls))"
  using nimProjects_loop_succeeds [OF assms, of "[]"]
  by (simp add: deployServerless_def runNim_def)

theorem deploy_single_invocation_witness:
  "deployServerless (home_system ''deployed'') [] [local_component, github_component] =
     ((''deployed'', None),
      [(''/home/u/.nimbella/cli/bin/nim'',
        [''project'', ''deploy'', ''--exclude'', ''web'', ''/a/b/sub'',
         ''github:org/repo/src#main''])])
   \<and> deployServerless homeless_system [] [local_component, github_component] =
     (('''', Some (os_error ''$HOME is not defined'')), [])"
proof -
  have 1: "map convertToNimProject [local_component, github_component] =
             map Inr [''/a/b/sub'', ''github:org/repo/src#main'']"
    by (simp add: convert_local_component convert_github_component)
  from deploy_single_invocation [OF 1, of "home_system ''deployed''" "[]"]
    deploy_single_invocation [OF 1, of homeless_system "[]"]
  show ?thesis
    by (simp add: nim_of_home_system nim_of_homeless_system) (simp add: home_system_def)
qed

text \<open>
  The claim C6 as it is written fails where the home directory is unknown: both
  components convert, and no process is launched.
\<close>

theorem deploy_no_invocation_counterexample:
  "map convertToNimProject [local_component, github_component] =
     map Inr [''/a/b/sub'', ''github:org/repo/src#main'']
   \<and> deployServerless homeless_system [] [local_component, github_component] =
       (('''', Some (os_error ''$HOME is not defined'')), [])"
  by (simp add: convert_local_component convert_github_component deployServerless_def
      runNim_def nim_of_homeless_system)

section \<open>Adding the serverless URL to the static sites\<close>

lemma key_in_use_iff:
  "key_in_use envs \<longleftrightarrow> (\<exists>env\<in>set envs. Key env = ''SERVERLESS_URL'')"
  by (induction envs) auto


lemma sites_loop_all_free:
  "\<forall>site\<in>set sites. \<not> key_in_use (Envs site) \<Longrightarrow>
     sites_loop url sites =
       (map (\<lambda>site. site\<lparr>Envs := Envs site @
               [\<lparr>Key = ''SERVERLESS_URL'', Value = url,
                 Scope = AppVariableScope_BuildTime, Type = AppVariableType_General\<rparr>]\<rparr>) sites,
        None)"
  by (induction sites) (auto simp: addURLToSite_def)

lemma sites_loop_first_conflict:
  "\<forall>site\<in>set before. \<not> key_in_use (Envs site) \<Longrightarrow> key_in_use (Envs s) \<Longrightarrow>
     sites_loop url (before @ s # after) =
       (map (\<lambda>site. site\<lparr>Envs := Envs site @
               [\<lparr>Key = ''SERVERLESS_URL'', Value = url,
                 Scope = AppVariableScope_BuildTime, Type = AppVariableType_General\<rparr>]\<rparr>) before
          @ s # after,
        Some (errors_New
          ''Unable to add serverless URL to static site because the variable has a conflicting use''))"
  by (induction before) (auto simp: addURLToSite_def)

lemma sites_loop_no_error:
  "snd (sites_loop url sites) = None \<Longrightarrow> \<forall>site\<in>set sites. \<not> key_in_use (Envs site)"
  by (induction sites) (auto simp: addURLToSite_def split: prod.splits if_splits)


lemma getServerlessURL_ok:
  "getServerlessURL sys ls = ((url, None), ls') \<Longrightarrow>
     \<exists>nim. getNimPath sys = Inr nim
       \<and> CombinedOutput sys nim [''auth'', ''current'', ''--web''] = (url, None)
       \<and> ls' = ls @ [(nim, [''auth'', ''current'', ''--web''])]"
  by (auto simp: getServerlessURL_def runNim_def split: sum.splits)

lemma getServerlessURL_home_system:
  "getServerlessURL (home_system out) [] =
     ((out, None), [(''/home/u/.nimbella/cli/bin/nim'', [''auth'', ''current'', ''--web''])])"
  by (simp add: getServerlessURL_def runNim_def nim_of_home_system) (simp add: home_system_def)

lemma injector_success:
  assumes "addServerlessURLToStaticSites sys ls sites = ((sites', None), ls')"
  shows "\<exists>nim url.
           getNimPath sys = Inr nim
         \<and> CombinedOutput sys nim [''auth'', ''current'', ''--web''] = (url, None)
         \<and> ls' = ls @ [(nim, [''auth'', ''current'', ''--web''])]
         \<and> (\<forall>site\<in>set sites. \<not> key_in_use (Envs site))
         \<and> sites' =
             map (\<lambda>site. site\<lparr>Envs := Envs site @
                   [\<lparr>Key = ''SERVERLESS_URL'', Value = url,
                     Scope = AppVariableScope_BuildTime, Type = AppVariableType_General\<rparr>]\<rparr>) sites"
proof -
  obtain url e ls1 where g: "getServerlessURL sys ls = ((url, e), ls1)"
    by (metis prod.exhaust)
  with assms have e: "e = None"
    by (cases e) (simp_all add: addServerlessURLToStaticSites_def)
  with g assms have loop: "sites_loop url sites = (sites', None)" and ls: "ls1 = ls'"
    by (simp_all add: addServerlessURLToStaticSites_def)
  from loop have free: "\<forall>site\<in>set sites. \<not> key_in_use (Envs site)"
    using sites_loop_no_error [of url sites] by simp
  from sites_loop_all_free [OF free, of url] loop
  have s: "sites' =
             map (\<lambda>site. site\<lparr>Envs := Envs site @
                   [\<lparr>Key = ''SERVERLESS_URL'', Value = url,
                     Scope = AppVariableScope_BuildTime, Type = AppVariableType_General\<rparr>]\<rparr>) sites"
    by simp
  from g e ls getServerlessURL_ok [of sys ls url ls'] obtain nim
    where "getNimPath sys = Inr nim"
      and "CombinedOutput sys nim [''auth'', ''current'', ''--web''] = (url, None)"
      and "ls' = ls @ [(nim, [''auth'', ''current'', ''--web''])]"
    by auto
  with free s show ?thesis by blast
qed





text \<open>
  C9, as amended. The value of the \<^verbatim>\<open>SERVERLESS_URL\<close> entry is the output of the run of
  \<^verbatim>\<open>auth current --web\<close> as the tool gave it, character for character: nothing is
  trimmed, so whitespace around the URL and a newline at its end are part of the value.
  In a call that returns without error every site ends with such an entry.
\<close>

theorem url_verbatim:
  assumes "addServerlessURLToStaticSites sys ls sites = ((sites', None), ls')"
  shows "\<exists>nim. getNimPath sys = Inr nim
         \<and> (\<forall>site'\<in>set sites'.
               Envs site' \<noteq> []
             \<and> Key (last (Envs site')) = ''SERVERLESS_URL''
             \<and> Value (last (Envs site')) =
                 fst (CombinedOutput sys nim [''auth'', ''current'', ''--web'']))"
proof -
  from injector_success [OF assms] obtain nim url
    where nim: "getNimPath sys = Inr nim"
      and out: "CombinedOutput sys nim [''auth'', ''current'', ''--web''] = (url, None)"
      and sites': "sites' =
             map (\<lambda>site. site\<lparr>Envs := Envs site @
                   [\<lparr>Key = ''SERVERLESS_URL'', Value = url,
                     Scope = AppVariableScope_BuildTime, Type = AppVariableType_General\<rparr>]\<rparr>) sites"
    by blast
  from sites' out have "\<forall>site'\<in>set sites'.
               Envs site' \<noteq> []
             \<and> Key (last (Envs site')) = ''SERVERLESS_URL''
             \<and> Value (last (Envs site')) =
                 fst (CombinedOutput sys nim [''auth'', ''current'', ''--web''])"
    by auto
  with nim show ?thesis by blast
qed

theorem url_verbatim_witness:
  "\<exists>nim. getNimPath (home_system framed_url) = Inr nim
     \<and> (\<forall>site'\<in>set [\<lparr>Envs = [\<lparr>Key = ''SERVERLESS_URL'', Value = framed_url,
                 Scope = AppVariableScope_BuildTime, Type = AppVariableType_General\<rparr>]\<rparr>].
               Envs site' \<noteq> []
             \<and> Key (last (Envs site')) = ''SERVERLESS_URL''
             \<and> Value (last (Envs site')) =
                 fst (CombinedOutput (home_system framed_url) nim
                   [''auth'', ''current'', ''--web'']))"
proof -
  have run: "addServerlessURLToStaticSites (home_system framed_url) [] [\<lparr>Envs = []\<rparr>] =
     (([\<lparr>Envs = [\<lparr>Key = ''SERVERLESS_URL'', Value = framed_url,
                 Scope = AppVariableScope_BuildTime, Type = AppVariableType_General\<rparr>]\<rparr>],
       None),
      [(''/home/u/.nimbella/cli/bin/nim'', [''auth'', ''current'', ''--web''])])"
    by (simp add: addServerlessURLToStaticSites_def getServerlessURL_home_system
        addURLToSite_def)
  show ?thesis by (rule url_verbatim [OF run])
qed

text \<open>
  The claim C9 as it is written fails on a tool that ends its output with a newline:
  the value stored is the output with the newline, not the trimmed output.
\<close>

theorem url_not_trimmed_counterexample:
  "addServerlessURLToStaticSites (home_system framed_url) [] [\<lparr>Envs = []\<rparr>] =
     (([\<lparr>Envs = [\<lparr>Key = ''SERVERLESS_URL'', Value = framed_url,
                 Scope = AppVariableScope_BuildTime, Type = AppVariableType_General\<rparr>]\<rparr>],
       None),
      [(''/home/u/.nimbella/cli/bin/nim'', [''auth'', ''current'', ''--web''])])
   \<and> trim_space framed_url = ''https://ns.example/api''
   \<and> framed_url \<noteq> trim_space framed_url"
  by (simp add: addServerlessURLToStaticSites_def getServerlessURL_home_system
      addURLToSite_def)
     (simp add: framed_url_def trim_space_def is_space_def)

text \<open>
  C10. When the URL has been fetched and the site at position \<open>k\<close> is the first of the
  batch with an entry keyed \<^verbatim>\<open>SERVERLESS_URL\<close>, the call returns the conflict error; the
  sites before position \<open>k\<close> have their new entry, and the site at \<open>k\<close> and all sites
  after it are as they were. What was appended before the conflict stays.
\<close>

theorem partial_appends_committed:
  assumes "getServerlessURL sys ls = ((url, None), ls')"
    and "k < length sites"
    and "\<exists>env\<in>set (Envs (sites ! k)). Key env = ''SERVERLESS_URL''"
    and "\<forall>j<k. \<not> (\<exists>env\<in>set (Envs (sites ! j)). Key env = ''SERVERLESS_URL'')"
  shows "addServerlessURLToStaticSites sys ls sites =
           ((map (\<lambda>site. site\<lparr>Envs := Envs site @
                   [\<lparr>Key = ''SERVERLESS_URL'', Value = url,
                     Scope = AppVariableScope_BuildTime, Type = AppVariableType_General\<rparr>]\<rparr>)
                (take k sites)
              @ drop k sites,
             Some (errors_New
               ''Unable to add serverless URL to static site because the variable has a conflicting use'')),
            ls')"
proof -
  have split: "sites = take k sites @ sites ! k # drop (Suc k) sites"
    using assms(2) by (rule id_take_nth_drop)
  have free: "\<forall>site\<in>set (take k sites). \<not> key_in_use (Envs site)"
  proof
    fix site assume "site \<in> set (take k sites)"
    then obtain j where "j < length (take k sites)" and "take k sites ! j = site"
      by (auto simp: in_set_conv_nth)
    then have "j < k" and "site = sites ! j" by auto
    with assms(4) show "\<not> key_in_use (Envs site)" by (simp add: key_in_use_iff)
  qed
  have used: "key_in_use (Envs (sites ! k))"
    using assms(3) by (simp add: key_in_use_iff)
  have "sites_loop url (take k sites @ sites ! k # drop (Suc k) sites) =
          (map (\<lambda>site. site\<lparr>Envs := Envs site @
                   [\<lparr>Key = ''SERVERLESS_URL'', Value = url,
                     Scope = AppVariableScope_BuildTime, Type = AppVariableType_General\<rparr>]\<rparr>)
                (take k sites)
              @ sites ! k # drop (Suc k) sites,
           Some (errors_New
             ''Unable to add serverless URL to static site because the variable has a conflicting use''))"
    using free used by (rule sites_loop_first_conflict)
  moreover have "sites ! k # drop (Suc k) sites = drop k sites"
    using assms(2) by (rule Cons_nth_drop_Suc)
  ultimately have "sites_loop url sites =
          (map (\<lambda>site. site\<lparr>Envs := Envs site @
                   [\<lparr>Key = ''SERVERLESS_URL'', Value = url,
                     Scope = AppVariableScope_BuildTime, Type = AppVariableType_General\<rparr>]\<rparr>)
                (take k sites)
              @ drop k sites,
           Some (errors_New
             ''Unable to add serverless URL to static site because the variable has a conflicting use''))"
    using split by simp
  with assms(1) show ?thesis by (simp add: addServerlessURLToStaticSites_def)
qed

theorem partial_appends_committed_witness:
  "addServerlessURLToStaticSites (home_system ''https://ns.example/api'') []
     [plain_site, taken_site, plain_site] =
   (([\<lparr>Envs = [\<lparr>Key = ''API_KEY'', Value = ''k1'',
                 Scope = AppVariableScope_RunTime, Type = AppVariableType_Secret\<rparr>,
                \<lparr>Key = ''SERVERLESS_URL'', Value = ''https://ns.example/api'',
                 Scope = AppVariableScope_BuildTime, Type = AppVariableType_General\<rparr>]\<rparr>,
      taken_site, plain_site],
     Some (errors_New
       ''Unable to add serverless URL to static site because the variable has a conflicting use'')),
    [(''/home/u/.nimbella/cli/bin/nim'', [''auth'', ''current'', ''--web''])])"
proof -
  let ?sites = "[plain_site, taken_site, plain_site]"
  have 1: "getServerlessURL (home_system ''https://ns.example/api'') [] =
             ((''https://ns.example/api'', None),
              [(''/home/u/.nimbella/cli/bin/nim'', [''auth'', ''current'', ''--web''])])"
    by (rule getServerlessURL_home_system)
  have 2: "Suc 0 < length ?sites" by simp
  have 3: "\<exists>env\<in>set (Envs (?sites ! Suc 0)). Key env = ''SERVERLESS_URL''"
    by (simp add: taken_site_def)
  have 4: "\<forall>j<Suc 0. \<not> (\<exists>env\<in>set (Envs (?sites ! j)). Key env = ''SERVERLESS_URL'')"
    by (simp add: plain_site_def)
  from partial_appends_committed [OF 1 2 3 4] show ?thesis by (simp add: plain_site_def)
qed

end
